theory Spec2Isabelle
  imports Complex_Main
begin

section \<open>Numbers, errors and strings\<close>

text \<open>
  The module \<open>homework.py\<close> computes distance, mean speed and spent calories of a
  workout and renders them in one line of text.

  Numbers. The values handled by the module are Python \<open>int\<close>s and \<open>float\<close>s. They are
  modelled by the type \<open>real\<close>: an \<open>int\<close> is embedded as itself, and a \<open>float\<close> operation
  is modelled by the exact operation on reals. Rounding of IEEE doubles, infinities and
  NaN are outside this model; the statements below are about the exact values of the
  formulas, which is why the numeric scenarios are stated with the tolerance
  \<open>1/1000\<close> of the specification.

  Errors. Every \<open>raise\<close> of the module, and every exception raised by an operator or a
  call the module makes, is a value \<open>Inl e\<close> of the result type \<open>py_error + 'a\<close>.
\<close>

datatype py_error = NotImplementedError | ZeroDivisionError | TypeError

definition then_do :: "py_error + 'a \<Rightarrow> ('a \<Rightarrow> py_error + 'b) \<Rightarrow> py_error + 'b" where
  "then_do r f = (case r of Inl e \<Rightarrow> Inl e | Inr v \<Rightarrow> f v)"

text \<open>Python's \<open>a / b\<close>: true division, raising \<open>ZeroDivisionError\<close> on a zero divisor.\<close>

definition py_truediv :: "real \<Rightarrow> real \<Rightarrow> py_error + real" where
  "py_truediv a b = (if b = 0 then Inl ZeroDivisionError else Inr (a / b))"

text \<open>Python's \<open>a // b\<close>: the floor of the quotient, raising on a zero divisor.\<close>

definition py_floordiv :: "real \<Rightarrow> real \<Rightarrow> py_error + real" where
  "py_floordiv a b = (if b = 0 then Inl ZeroDivisionError else Inr (of_int \<lfloor>a / b\<rfloor>))"

text \<open>
  A Python \<open>str\<close> is a sequence of Unicode code points, here a list of naturals.
  \<open>ascii\<close> gives the code points of an ASCII literal.
\<close>

type_synonym pystr = "nat list"

definition ascii :: "string \<Rightarrow> pystr" where
  "ascii s = map of_char s"

section \<open>The class hierarchy\<close>

text \<open>
  An object of class \<open>Training\<close> or of one of its three subclasses is a value of the
  datatype \<open>training\<close>; the constructor is the object's class and its arguments are the
  instance attributes that \<open>__init__\<close> stores, in the order of \<open>__init__\<close>'s parameters.
\<close>

datatype training =
    Training (action: real) (duration: real) (weight: real)
  | Running (action: real) (duration: real) (weight: real)
  | SportsWalking (action: real) (duration: real) (weight: real) (height: real)
  | Swimming (action: real) (duration: real) (weight: real)
      (length_pool: real) (count_pool: real)

text \<open>\<open>self.__class__.__name__\<close>.\<close>

fun class_name :: "training \<Rightarrow> pystr" where
  "class_name (Training _ _ _) = ascii ''Training''"
| "class_name (Running _ _ _) = ascii ''Running''"
| "class_name (SportsWalking _ _ _ _) = ascii ''SportsWalking''"
| "class_name (Swimming _ _ _ _ _) = ascii ''Swimming''"

text \<open>
  Class attributes. \<open>M_IN_KM\<close> and \<open>MIN_IN_HOUR\<close> are defined in \<open>Training\<close> only;
  \<open>LEN_STEP\<close> is defined in \<open>Training\<close> and again in \<open>Swimming\<close>, so \<open>self.LEN_STEP\<close>
  depends on the class of \<open>self\<close>.
\<close>

definition M_IN_KM :: real where
  "M_IN_KM = 1000"

definition MIN_IN_HOUR :: real where
  "MIN_IN_HOUR = 60"

fun LEN_STEP :: "training \<Rightarrow> real" where
  "LEN_STEP (Swimming _ _ _ _ _) = 1.38"
| "LEN_STEP _ = 0.65"

definition RUN_COEFF_1 :: real where
  "RUN_COEFF_1 = 18"

definition RUN_COEFF_2 :: real where
  "RUN_COEFF_2 = 20"

definition WLK_COEFF_1 :: real where
  "WLK_COEFF_1 = 0.035"

definition WLK_COEFF_2 :: real where
  "WLK_COEFF_2 = 0.029"

definition SWM_COEFF_1 :: real where
  "SWM_COEFF_1 = 1.1"

definition SWM_COEFF_2 :: real where
  "SWM_COEFF_2 = 2"

subsection \<open>Distance\<close>

text \<open>
  \<open>Training.get_distance\<close> and its override \<open>Swimming.get_distance\<close>, each taking
  \<open>self\<close>; \<open>get_distance\<close> is the method call \<open>self.get_distance()\<close>, which selects the
  override for a \<open>Swimming\<close> object.
\<close>

definition Training_get_distance :: "training \<Rightarrow> py_error + real" where
  "Training_get_distance self = py_truediv (action self * LEN_STEP self) M_IN_KM"

definition Swimming_get_distance :: "training \<Rightarrow> py_error + real" where
  "Swimming_get_distance self = py_truediv (action self * LEN_STEP self) M_IN_KM"

fun get_distance :: "training \<Rightarrow> py_error + real" where
  "get_distance (Swimming a d w l c) = Swimming_get_distance (Swimming a d w l c)"
| "get_distance self = Training_get_distance self"

subsection \<open>Mean speed\<close>

definition Training_get_mean_speed :: "training \<Rightarrow> py_error + real" where
  "Training_get_mean_speed self =
     then_do (get_distance self) (\<lambda>distance. py_truediv distance (duration self))"

definition Swimming_get_mean_speed :: "training \<Rightarrow> py_error + real" where
  "Swimming_get_mean_speed self =
     (let distance_in_meters = length_pool self * count_pool self in
      then_do (py_truediv distance_in_meters M_IN_KM) (\<lambda>distance_in_km.
      py_truediv distance_in_km (duration self)))"

fun get_mean_speed :: "training \<Rightarrow> py_error + real" where
  "get_mean_speed (Swimming a d w l c) = Swimming_get_mean_speed (Swimming a d w l c)"
| "get_mean_speed self = Training_get_mean_speed self"

subsection \<open>Spent calories\<close>

definition Training_get_spent_calories :: "training \<Rightarrow> py_error + real" where
  "Training_get_spent_calories self = Inl NotImplementedError"

definition Running_get_spent_calories :: "training \<Rightarrow> py_error + real" where
  "Running_get_spent_calories self =
     then_do (get_mean_speed self) (\<lambda>mean_speed.
     let speed_and_coeff = (RUN_COEFF_1 * mean_speed - RUN_COEFF_2) * weight self;
         duration_in_minutes = duration self * MIN_IN_HOUR in
     then_do (py_truediv speed_and_coeff M_IN_KM) (\<lambda>q.
     Inr (q * duration_in_minutes)))"

definition SportsWalking_get_spent_calories :: "training \<Rightarrow> py_error + real" where
  "SportsWalking_get_spent_calories self =
     (let weight_and_coeff_1 = WLK_COEFF_1 * weight self;
          weight_and_coeff_2 = WLK_COEFF_2 * weight self in
      then_do (get_mean_speed self) (\<lambda>mean_speed.
      then_do (py_floordiv (mean_speed ^ 2) (height self)) (\<lambda>mean_speed_and_weight.
      let duration_in_minutes = duration self * MIN_IN_HOUR in
      Inr ((weight_and_coeff_1 + mean_speed_and_weight * weight_and_coeff_2)
           * duration_in_minutes))))"

definition Swimming_get_spent_calories :: "training \<Rightarrow> py_error + real" where
  "Swimming_get_spent_calories self =
     then_do (get_mean_speed self) (\<lambda>mean_speed.
     let mean_speed_and_coeff = mean_speed + SWM_COEFF_1 in
     Inr (mean_speed_and_coeff * SWM_COEFF_2 * weight self))"

fun get_spent_calories :: "training \<Rightarrow> py_error + real" where
  "get_spent_calories (Training a d w) = Training_get_spent_calories (Training a d w)"
| "get_spent_calories (Running a d w) = Running_get_spent_calories (Running a d w)"
| "get_spent_calories (SportsWalking a d w h) =
     SportsWalking_get_spent_calories (SportsWalking a d w h)"
| "get_spent_calories (Swimming a d w l c) =
     Swimming_get_spent_calories (Swimming a d w l c)"

section \<open>The information message\<close>

subsection \<open>Fixed-point formatting\<close>

text \<open>
  \<open>format(x, '.3f')\<close>: a minus sign for a negative number, the decimal digits of the
  integer part, a point and exactly three decimals, the number being rounded to the
  nearest multiple of \<open>1/1000\<close> and a tie going to the even neighbour. Code point 45 is
  the minus sign, 46 the point and \<open>48 + d\<close> the digit \<open>d\<close>.
\<close>

definition round_half_even :: "real \<Rightarrow> int" where
  "round_half_even y =
     (let n = \<lfloor>y\<rfloor>; f = y - of_int n in
      if f < 1 / 2 then n
      else if 1 / 2 < f then n + 1
      else if even n then n else n + 1)"

function digits :: "nat \<Rightarrow> pystr" where
  "digits n = (if n < 10 then [48 + n] else digits (n div 10) @ [48 + n mod 10])"
  by pat_completeness auto
termination
  by (relation "measure (\<lambda>n. n)") auto

declare digits.simps [simp del]

definition format_f3 :: "real \<Rightarrow> pystr" where
  "format_f3 x =
     (let n = nat (round_half_even (\<bar>x\<bar> * 1000)) in
      (if x < 0 then [45] else [])
      @ digits (n div 1000)
      @ [46, 48 + n div 100 mod 10, 48 + n div 10 mod 10, 48 + n mod 10])"

subsection \<open>The dataclass \<open>InfoMessage\<close>\<close>

text \<open>
  The format string \<open>message\<close> is kept in parsed form, as the list of its pieces: literal
  text, a replacement field \<open>{name}\<close> of a string field, a replacement field
  \<open>{name:.3f}\<close> of a numeric field. The record field of the dataclass field \<open>duration\<close>
  is named \<open>duration_info\<close>, since \<open>duration\<close> is the attribute of a training.
\<close>

datatype str_field = Training_type

datatype num_field = Duration | Distance | Speed | Calories

datatype piece = Lit pystr | Subst str_field | Subst_f3 num_field

record InfoMessage =
  training_type :: pystr
  duration_info :: real
  distance :: real
  speed :: real
  calories :: real
  message :: "piece list"

text \<open>
  The default value of \<open>message\<close>. Its literal pieces are Russian text, written here by
  code points:
  \<^item> \<open>lit_type\<close> is \<open>Tip trenirovki: \<close> (workout type),
  \<^item> \<open>lit_duration\<close> is \<open>; Dlitel'nost': \<close> (duration),
  \<^item> \<open>lit_distance\<close> is \<open> ch.; Distantsiya: \<close> (hours; distance),
  \<^item> \<open>lit_speed\<close> is \<open> km; Sr. skorost': \<close> (km; mean speed),
  \<^item> \<open>lit_calories\<close> is \<open> km/ch; Potracheno kkal: \<close> (km/h; kcal spent),
  \<^item> \<open>lit_end\<close> is the final point.
\<close>

definition lit_type :: pystr where
  "lit_type = [0x422, 0x438, 0x43F, 32,
     0x442, 0x440, 0x435, 0x43D, 0x438, 0x440, 0x43E, 0x432, 0x43A, 0x438, 58, 32]"

definition lit_duration :: pystr where
  "lit_duration = [59, 32,
     0x414, 0x43B, 0x438, 0x442, 0x435, 0x43B, 0x44C, 0x43D, 0x43E, 0x441, 0x442, 0x44C,
     58, 32]"

definition lit_distance :: pystr where
  "lit_distance = [32, 0x447, 46, 59, 32,
     0x414, 0x438, 0x441, 0x442, 0x430, 0x43D, 0x446, 0x438, 0x44F, 58, 32]"

definition lit_speed :: pystr where
  "lit_speed = [32, 0x43A, 0x43C, 59, 32, 0x421, 0x440, 46, 32,
     0x441, 0x43A, 0x43E, 0x440, 0x43E, 0x441, 0x442, 0x44C, 58, 32]"

definition lit_calories :: pystr where
  "lit_calories = [32, 0x43A, 0x43C, 47, 0x447, 59, 32,
     0x41F, 0x43E, 0x442, 0x440, 0x430, 0x447, 0x435, 0x43D, 0x43E, 32,
     0x43A, 0x43A, 0x430, 0x43B, 58, 32]"

definition lit_end :: pystr where
  "lit_end = [46]"

definition default_message :: "piece list" where
  "default_message =
     [Lit lit_type, Subst Training_type,
      Lit lit_duration, Subst_f3 Duration,
      Lit lit_distance, Subst_f3 Distance,
      Lit lit_speed, Subst_f3 Speed,
      Lit lit_calories, Subst_f3 Calories,
      Lit lit_end]"

text \<open>\<open>asdict(self)\<close>, by the type of the field.\<close>

fun asdict_str :: "InfoMessage \<Rightarrow> str_field \<Rightarrow> pystr" where
  "asdict_str m Training_type = training_type m"

fun asdict_num :: "InfoMessage \<Rightarrow> num_field \<Rightarrow> real" where
  "asdict_num m Duration = duration_info m"
| "asdict_num m Distance = distance m"
| "asdict_num m Speed = speed m"
| "asdict_num m Calories = calories m"

fun format_piece :: "InfoMessage \<Rightarrow> piece \<Rightarrow> pystr" where
  "format_piece m (Lit s) = s"
| "format_piece m (Subst f) = asdict_str m f"
| "format_piece m (Subst_f3 f) = format_f3 (asdict_num m f)"

definition get_message :: "InfoMessage \<Rightarrow> pystr" where
  "get_message self = concat (map (format_piece self) (message self))"

text \<open>
  \<open>Training.show_training_info\<close>. The keyword arguments are evaluated in the order
  they are written, so the first method that raises decides the error.
\<close>

definition show_training_info :: "training \<Rightarrow> py_error + InfoMessage" where
  "show_training_info self =
     then_do (get_distance self) (\<lambda>dist.
     then_do (get_mean_speed self) (\<lambda>mean_speed.
     then_do (get_spent_calories self) (\<lambda>cal.
     Inr \<lparr>training_type = class_name self,
          duration_info = duration self,
          distance = dist,
          speed = mean_speed,
          calories = cal,
          message = default_message\<rparr>)))"

section \<open>Reading a package\<close>

text \<open>
  A call \<open>cls(*data)\<close> binds the values of \<open>data\<close> to the parameters of \<open>__init__\<close> by
  position and raises \<open>TypeError\<close> when their number is not the number of parameters.
\<close>

fun Running_new :: "real list \<Rightarrow> py_error + training" where
  "Running_new [a, d, w] = Inr (Running a d w)"
| "Running_new _ = Inl TypeError"

fun SportsWalking_new :: "real list \<Rightarrow> py_error + training" where
  "SportsWalking_new [a, d, w, h] = Inr (SportsWalking a d w h)"
| "SportsWalking_new _ = Inl TypeError"

fun Swimming_new :: "real list \<Rightarrow> py_error + training" where
  "Swimming_new [a, d, w, l, c] = Inr (Swimming a d w l c)"
| "Swimming_new _ = Inl TypeError"

text \<open>The dictionary \<open>training_name\<close> of \<open>read_package\<close>, from the code to the class.\<close>

definition training_name :: "string \<rightharpoonup> (real list \<Rightarrow> py_error + training)" where
  "training_name =
     [''SWM'' \<mapsto> Swimming_new, ''RUN'' \<mapsto> Running_new, ''WLK'' \<mapsto> SportsWalking_new]"

definition read_package :: "string \<Rightarrow> real list \<Rightarrow> py_error + training" where
  "read_package workout_type data =
     (case training_name workout_type of
        None \<Rightarrow> Inl NotImplementedError
      | Some cls \<Rightarrow> cls data)"

text \<open>
  \<open>main\<close> applied to the result of \<open>read_package\<close>, as the loop of the script does: the
  line that is printed, or the error that ends the run.
\<close>

definition main :: "training \<Rightarrow> py_error + pystr" where
  "main training = then_do (show_training_info training) (\<lambda>info. Inr (get_message info))"

section \<open>Tolerance of the numeric scenarios\<close>

text \<open>
  The specification compares the numbers of its scenarios within the tolerance \<open>1e-3\<close>:
  \<open>within_tolerance r v\<close> holds when the call returned a number, whose distance to \<open>v\<close>
  is at most \<open>1/1000\<close>.
\<close>

definition within_tolerance :: "py_error + real \<Rightarrow> real \<Rightarrow> bool" where
  "within_tolerance r v = (case r of Inl e \<Rightarrow> False | Inr x \<Rightarrow> \<bar>x - v\<bar> \<le> 1 / 1000)"

section \<open>What the methods compute\<close>

lemmas class_consts =
  M_IN_KM_def MIN_IN_HOUR_def RUN_COEFF_1_def RUN_COEFF_2_def
  WLK_COEFF_1_def WLK_COEFF_2_def SWM_COEFF_1_def SWM_COEFF_2_def

text \<open>The distance never fails: \<open>M_IN_KM\<close> is not zero.\<close>

lemma get_distance_eq:
  "get_distance self = Inr (action self * LEN_STEP self / 1000)"
  by (cases self)
    (simp_all add: Training_get_distance_def Swimming_get_distance_def py_truediv_def
      M_IN_KM_def)

lemma Training_get_mean_speed_eq:
  "Training_get_mean_speed self =
     (if duration self = 0 then Inl ZeroDivisionError
      else Inr (action self * LEN_STEP self / 1000 / duration self))"
  by (simp add: Training_get_mean_speed_def get_distance_eq then_do_def py_truediv_def)

lemma Swimming_get_mean_speed_eq:
  "Swimming_get_mean_speed self =
     (if duration self = 0 then Inl ZeroDivisionError
      else Inr (length_pool self * count_pool self / 1000 / duration self))"
  by (simp add: Swimming_get_mean_speed_def then_do_def py_truediv_def M_IN_KM_def)

text \<open>
  The spent calories of each class, as one case distinction on the divisors that can be
  zero.
\<close>

lemma Running_get_spent_calories_eq:
  "Running_get_spent_calories (Running a d w) =
     (if d = 0 then Inl ZeroDivisionError
      else Inr ((18 * (a * 0.65 / 1000 / d) - 20) * w / 1000 * (d * 60)))"
  by (simp add: Running_get_spent_calories_def Training_get_mean_speed_eq then_do_def
      py_truediv_def class_consts)

lemma SportsWalking_get_spent_calories_eq:
  "SportsWalking_get_spent_calories (SportsWalking a d w h) =
     (if d = 0 \<or> h = 0 then Inl ZeroDivisionError
      else Inr ((0.035 * w + of_int \<lfloor>(a * 0.65 / 1000 / d) ^ 2 / h\<rfloor> * (0.029 * w))
                * (d * 60)))"
  by (simp add: SportsWalking_get_spent_calories_def Training_get_mean_speed_eq then_do_def
      py_floordiv_def class_consts)

lemma Swimming_get_spent_calories_eq:
  "Swimming_get_spent_calories (Swimming a d w l c) =
     (if d = 0 then Inl ZeroDivisionError
      else Inr ((l * c / 1000 / d + 1.1) * 2 * w))"
  by (simp add: Swimming_get_spent_calories_def Swimming_get_mean_speed_eq then_do_def
      class_consts)

text \<open>Only the abstract method of the base class raises \<open>NotImplementedError\<close>.\<close>

lemma get_spent_calories_not_implemented:
  "get_spent_calories self = Inl NotImplementedError \<longleftrightarrow> (\<exists>a d w. self = Training a d w)"
  by (cases self)
    (simp_all add: Training_get_spent_calories_def Running_get_spent_calories_eq
      SportsWalking_get_spent_calories_eq Swimming_get_spent_calories_eq)

text \<open>
  \<open>read_package\<close> hands the values to the class of the code; that call returns an object
  exactly when the number of values is the number of parameters of \<open>__init__\<close>.
\<close>

lemma read_package_known:
  "read_package ''RUN'' data = Running_new data"
  "read_package ''WLK'' data = SportsWalking_new data"
  "read_package ''SWM'' data = Swimming_new data"
  by (simp_all add: read_package_def training_name_def)

lemma Running_new_arity:
  "(\<exists>r. Running_new data = Inr r) \<longleftrightarrow> length data = 3"
  "Running_new data = Inl TypeError \<longleftrightarrow> length data \<noteq> 3"
  by (induction data rule: Running_new.induct) simp_all

lemma SportsWalking_new_arity:
  "(\<exists>r. SportsWalking_new data = Inr r) \<longleftrightarrow> length data = 4"
  "SportsWalking_new data = Inl TypeError \<longleftrightarrow> length data \<noteq> 4"
  by (induction data rule: SportsWalking_new.induct) simp_all

lemma Swimming_new_arity:
  "(\<exists>r. Swimming_new data = Inr r) \<longleftrightarrow> length data = 5"
  "Swimming_new data = Inl TypeError \<longleftrightarrow> length data \<noteq> 5"
  by (induction data rule: Swimming_new.induct) simp_all

section \<open>The scenarios of the specification\<close>

text \<open>
  C1, as amended. For the code \<open>RUN\<close> and the values \<open>[15000, 1, 75]\<close>, \<open>read_package\<close>
  builds the running record, whose distance is 9.75 km, whose mean speed is 9.75 km/h
  and whose spent calories are 699.75 kcal, each within the tolerance \<open>1e-3\<close>.
\<close>

theorem running_scenario_values:
  "read_package ''RUN'' [15000, 1, 75] = Inr (Running 15000 1 75)
   \<and> within_tolerance (get_distance (Running 15000 1 75)) 9.75
   \<and> within_tolerance (get_mean_speed (Running 15000 1 75)) 9.75
   \<and> within_tolerance (get_spent_calories (Running 15000 1 75)) 699.75"
  by (simp add: read_package_known within_tolerance_def get_distance_eq
      Training_get_mean_speed_eq Running_get_spent_calories_eq)

text \<open>
  The value 707.625 kcal that the specification gives for this scenario is not what the
  formula yields: \<open>((18 * 9.75 - 20) * 75 / 1000) * 60\<close> is 699.75, which is 7.875 away.
\<close>

theorem running_scenario_calories_not_707:
  "read_package ''RUN'' [15000, 1, 75] = Inr (Running 15000 1 75)
   \<and> get_spent_calories (Running 15000 1 75) = Inr 699.75
   \<and> \<not> within_tolerance (get_spent_calories (Running 15000 1 75)) 707.625"
  by (simp add: read_package_known within_tolerance_def Running_get_spent_calories_eq)

text \<open>
  C6. For the code \<open>SWM\<close> and the values \<open>[720, 1, 80, 25, 40]\<close>, the rendered message is
  exactly the line of the specification: the workout type is the class name
  \<open>Swimming\<close>, and the duration, the distance, the mean speed and the calories are printed
  with three decimals, as \<open>1.000\<close>, \<open>0.994\<close> (the distance 0.9936, rounded), \<open>1.000\<close> and
  \<open>336.000\<close>. The Russian words are given by their code points, the rest as ASCII text.
\<close>

theorem swimming_scenario_message:
  "then_do (read_package ''SWM'' [720, 1, 80, 25, 40]) main
   = Inr ([0x422, 0x438, 0x43F]
      @ ascii '' ''
      @ [0x442, 0x440, 0x435, 0x43D, 0x438, 0x440, 0x43E, 0x432, 0x43A, 0x438]
      @ ascii '': Swimming; ''
      @ [0x414, 0x43B, 0x438, 0x442, 0x435, 0x43B, 0x44C, 0x43D, 0x43E, 0x441, 0x442, 0x44C]
      @ ascii '': 1.000 ''
      @ [0x447]
      @ ascii ''.; ''
      @ [0x414, 0x438, 0x441, 0x442, 0x430, 0x43D, 0x446, 0x438, 0x44F]
      @ ascii '': 0.994 ''
      @ [0x43A, 0x43C]
      @ ascii ''; ''
      @ [0x421, 0x440]
      @ ascii ''. ''
      @ [0x441, 0x43A, 0x43E, 0x440, 0x43E, 0x441, 0x442, 0x44C]
      @ ascii '': 1.000 ''
      @ [0x43A, 0x43C]
      @ ascii ''/''
      @ [0x447]
      @ ascii ''; ''
      @ [0x41F, 0x43E, 0x442, 0x440, 0x430, 0x447, 0x435, 0x43D, 0x43E]
      @ ascii '' ''
      @ [0x43A, 0x43A, 0x430, 0x43B]
      @ ascii '': 336.000.'')"
  by (simp add: read_package_known main_def show_training_info_def then_do_def
      get_distance_eq Swimming_get_mean_speed_eq Swimming_get_spent_calories_eq
      get_message_def default_message_def ascii_def
      format_f3_def round_half_even_def digits.simps
      lit_type_def lit_duration_def lit_distance_def lit_speed_def lit_calories_def
      lit_end_def)

section \<open>The formulas\<close>







text \<open>
  C5. For every swimming record, the overriding \<open>Swimming.get_distance\<close> returns exactly
  what the inherited \<open>Training.get_distance\<close> returns for that record: both compute
  \<open>action * 1.38 / 1000\<close>, since \<open>self.LEN_STEP\<close> is the attribute of \<open>Swimming\<close>. The
  override does not change the behaviour.
\<close>

theorem swimming_distance_override_redundant:
  "Swimming_get_distance (Swimming a d w l c) = Training_get_distance (Swimming a d w l c)
   \<and> Training_get_distance (Swimming a d w l c) = Inr (a * 1.38 / 1000)
   \<and> get_distance (Swimming a d w l c) = Inr (a * 1.38 / 1000)"
  by (simp add: Swimming_get_distance_def Training_get_distance_def py_truediv_def
      M_IN_KM_def)

text \<open>
  C9. Two swimming records that agree on the duration, the weight, the length of the
  pool and the number of lengths swum have the same mean speed and the same spent
  calories, whatever their numbers of strokes: the number of strokes is used by the
  distance only.
\<close>

theorem swimming_action_independent:
  "get_mean_speed (Swimming a d w l c) = get_mean_speed (Swimming a' d w l c)
   \<and> get_spent_calories (Swimming a d w l c) = get_spent_calories (Swimming a' d w l c)"
  by (simp add: Swimming_get_mean_speed_def Swimming_get_spent_calories_def)

section \<open>Errors\<close>

text \<open>
  C7. For every code other than \<open>SWM\<close>, \<open>RUN\<close> and \<open>WLK\<close> and every sequence of values,
  \<open>read_package\<close> raises \<open>NotImplementedError\<close>: the dictionary has no class for the
  code, so no object is built. For each of the three codes, \<open>read_package\<close> calls the
  class of the code with the values, and returns the object of that class whose
  attributes are the values, in their order.
\<close>

theorem read_package_dispatch:
  "(\<forall>workout_type data. workout_type \<notin> {''SWM'', ''RUN'', ''WLK''} \<longrightarrow>
      training_name workout_type = None
      \<and> read_package workout_type data = Inl NotImplementedError)
   \<and> (\<forall>data. read_package ''RUN'' data = Running_new data)
   \<and> (\<forall>data. read_package ''WLK'' data = SportsWalking_new data)
   \<and> (\<forall>data. read_package ''SWM'' data = Swimming_new data)
   \<and> (\<forall>a d w. read_package ''RUN'' [a, d, w] = Inr (Running a d w))
   \<and> (\<forall>a d w h. read_package ''WLK'' [a, d, w, h] = Inr (SportsWalking a d w h))
   \<and> (\<forall>a d w l c. read_package ''SWM'' [a, d, w, l, c] = Inr (Swimming a d w l c))"
  by (simp add: read_package_def training_name_def)

theorem read_package_dispatch_witness:
  "''XYZ'' \<notin> {''SWM'', ''RUN'', ''WLK''}
   \<and> training_name ''XYZ'' = None
   \<and> read_package ''XYZ'' [15000, 1, 75] = Inl NotImplementedError"
  using read_package_dispatch [THEN conjunct1, rule_format, of "''XYZ''" "[15000, 1, 75]"]
  by simp



section \<open>Negative calories\<close>

lemma running_formula_negative:
  fixes a d w :: real
  assumes "0 < d" and "0 < w" and "a * 0.65 / 1000 / d < 20 / 18"
  shows "((18 * (a * 0.65 / 1000 / d)) - 20) * w / 1000 * (d * 60) < 0"
proof -
  have "18 * (a * 0.65 / 1000 / d) - 20 < 0"
    using assms(3) by simp
  then have "(18 * (a * 0.65 / 1000 / d) - 20) * w < 0"
    using assms(2) by (simp add: mult_less_0_iff)
  then have "(18 * (a * 0.65 / 1000 / d) - 20) * w / 1000 < 0"
    by simp
  moreover have "0 < d * 60"
    using assms(1) by simp
  ultimately show ?thesis
    by (rule mult_neg_pos)
qed

text \<open>
  C10. Some running record whose three fields are positive spends a negative number of
  calories: the formula of the running calories is not clamped at zero. This is so for
  every running record with positive fields whose mean speed is less than \<open>20/18\<close> km/h,
  for example for 100 steps in 1 hour at 75 kg.
\<close>

theorem running_calories_negative:
  "(\<exists>a d w. 0 < a \<and> 0 < d \<and> 0 < w
       \<and> (\<exists>cal. get_spent_calories (Running a d w) = Inr cal \<and> cal < 0))
   \<and> (\<forall>a d w. 0 < a \<and> 0 < d \<and> 0 < w \<and> a * 0.65 / 1000 / d < 20 / 18 \<longrightarrow>
         (\<exists>cal. get_spent_calories (Running a d w) = Inr cal \<and> cal < 0))"
proof (intro conjI allI impI)
  have "get_spent_calories (Running 100 1 75) = Inr (- 84.735)"
    by (simp add: Running_get_spent_calories_eq)
  then show "\<exists>a d w. 0 < a \<and> 0 < d \<and> 0 < w
       \<and> (\<exists>cal. get_spent_calories (Running a d w) = Inr cal \<and> cal < 0)"
    by (intro exI [of _ 100] exI [of _ 1] exI [of _ 75] exI [of _ "- 84.735"]) simp
next
  fix a d w :: real
  assume h: "0 < a \<and> 0 < d \<and> 0 < w \<and> a * 0.65 / 1000 / d < 20 / 18"
  then have "get_spent_calories (Running a d w)
       = Inr (((18 * (a * 0.65 / 1000 / d)) - 20) * w / 1000 * (d * 60))"
    by (simp add: Running_get_spent_calories_eq)
  moreover have "((18 * (a * 0.65 / 1000 / d)) - 20) * w / 1000 * (d * 60) < 0"
    using h by (intro running_formula_negative) simp_all
  ultimately show "\<exists>cal. get_spent_calories (Running a d w) = Inr cal \<and> cal < 0"
    by blast
qed

theorem running_calories_negative_witness:
  "(0::real) < 100 \<and> (0::real) < 1 \<and> (0::real) < 75
   \<and> (100::real) * 0.65 / 1000 / 1 < 20 / 18
   \<and> get_spent_calories (Running 100 1 75) = Inr (- 84.735)
   \<and> (\<exists>cal. get_spent_calories (Running 100 1 75) = Inr cal \<and> cal < 0)"
  using running_calories_negative [THEN conjunct2, rule_format, of 100 1 75]
  by (simp add: Running_get_spent_calories_eq)

end
